theory Spec2Isabelle
  imports Complex_Main
begin

section \<open>JavaScript numbers and the conversion \<open>Number(string)\<close>\<close>

text \<open>
  The widget keeps four numbers. They enter the program through \<open>Number(v)\<close>, applied
  to an attribute string, so the model starts with that conversion (ECMAScript
  \<open>StringToNumber\<close>, grammar \<open>StringNumericLiteral\<close>).

  A JavaScript number is \<open>NaN\<close>, one of the two infinities, or a finite number. A finite
  number is represented by the rational it denotes: the literal's mathematical value when it
  is read, and exact sums afterwards. Rounding to a 64-bit binary float is not part of the
  model (it is the identity on the integers below \<open>2^53\<close> the widget is meant for), nor is
  the sign of zero; overflow to an infinity is.

  Strings are lists of \<open>char\<close>, one per code unit up to \<open>0xFF\<close>. The
  conversion the other way, \<open>String(n)\<close>, is not modelled; where the source writes
  \<open>String(n)\<close> into the page, the model keeps \<open>n\<close>.
\<close>

datatype jsnum = NaN | PosInf | NegInf | Num rat

text \<open>\<open>Number.isFinite(n)\<close>.\<close>

fun isFinite :: "jsnum \<Rightarrow> bool" where
  "isFinite (Num _) = True"
| "isFinite _ = False"

text \<open>\<open>StrWhiteSpaceChar\<close>: TAB, LF, VT, FF, CR, SP and NBSP.\<close>

definition isStrWhiteSpaceChar :: "char \<Rightarrow> bool" where
  "isStrWhiteSpaceChar c =
     (c \<in> set [CHR 0x09, CHR 0x0A, CHR 0x0B, CHR 0x0C, CHR 0x0D, CHR 0x20, CHR 0xA0])"

definition trimString :: "string \<Rightarrow> string" where
  "trimString s =
     rev (dropWhile isStrWhiteSpaceChar (rev (dropWhile isStrWhiteSpaceChar s)))"

definition digitValue :: "char \<Rightarrow> nat option" where
  "digitValue = map_of
     [(CHR ''0'', 0), (CHR ''1'', 1), (CHR ''2'', 2), (CHR ''3'', 3), (CHR ''4'', 4),
      (CHR ''5'', 5), (CHR ''6'', 6), (CHR ''7'', 7), (CHR ''8'', 8), (CHR ''9'', 9),
      (CHR ''a'', 10), (CHR ''b'', 11), (CHR ''c'', 12), (CHR ''d'', 13), (CHR ''e'', 14),
      (CHR ''f'', 15), (CHR ''A'', 10), (CHR ''B'', 11), (CHR ''C'', 12), (CHR ''D'', 13),
      (CHR ''E'', 14), (CHR ''F'', 15)]"

text \<open>A digit of the given radix.\<close>

definition isDigit :: "nat \<Rightarrow> char \<Rightarrow> bool" where
  "isDigit radix c = (case digitValue c of None \<Rightarrow> False | Some d \<Rightarrow> d < radix)"

text \<open>The mathematical value of a run of digits, most significant first.\<close>

definition digitsValue :: "nat \<Rightarrow> string \<Rightarrow> nat" where
  "digitsValue radix ds =
     foldl (\<lambda>acc c. acc * radix + (case digitValue c of None \<Rightarrow> 0 | Some d \<Rightarrow> d)) 0 ds"

text \<open>
  The number for a mathematical value: values that round to \<open>2^1024\<close> or beyond
  (from \<open>2^1024 - 2^970\<close> on, half an ulp above the largest float) are infinite.
\<close>

definition roundToNumber :: "rat \<Rightarrow> jsnum" where
  "roundToNumber mv =
     (if \<bar>mv\<bar> < 2 ^ 1024 - 2 ^ 970 then Num mv
      else if 0 < mv then PosInf else NegInf)"

text \<open>
  \<open>ExponentPart\<close>, optional: nothing left is exponent 0; otherwise \<open>e\<close> or \<open>E\<close>, an
  optional sign and at least one decimal digit, up to the end of the string.
\<close>

definition exponentPart :: "string \<Rightarrow> int option" where
  "exponentPart s =
     (case s of
        [] \<Rightarrow> Some 0
      | c # t \<Rightarrow>
          if c = CHR ''e'' \<or> c = CHR ''E'' then
            (let neg = (case t of [] \<Rightarrow> False | d # _ \<Rightarrow> d = CHR ''-'');
                 ds = (case t of [] \<Rightarrow> []
                       | d # u \<Rightarrow> if d = CHR ''+'' \<or> d = CHR ''-'' then u else t)
             in if ds = [] then None
                else if list_all (isDigit 10) ds then
                  Some (if neg then - int (digitsValue 10 ds) else int (digitsValue 10 ds))
                else None)
          else None)"

definition scale10 :: "rat \<Rightarrow> int \<Rightarrow> rat" where
  "scale10 x e = (if 0 \<le> e then x * 10 ^ nat e else x / 10 ^ nat (- e))"

text \<open>
  \<open>StrUnsignedDecimalLiteral\<close>: \<open>Infinity\<close>, or digits with an optional fraction and an
  optional exponent, with a digit before or after the point. Anything else is \<open>NaN\<close>.
\<close>

definition strUnsignedDecimalLiteral :: "string \<Rightarrow> jsnum" where
  "strUnsignedDecimalLiteral s =
     (if s = ''Infinity'' then PosInf
      else
        let ip = takeWhile (isDigit 10) s;
            r = dropWhile (isDigit 10) s;
            fp = (case r of [] \<Rightarrow> []
                  | c # t \<Rightarrow> if c = CHR ''.'' then takeWhile (isDigit 10) t else []);
            r' = (case r of [] \<Rightarrow> []
                  | c # t \<Rightarrow> if c = CHR ''.'' then dropWhile (isDigit 10) t else r)
        in if ip = [] \<and> fp = [] then NaN
           else
             (case exponentPart r' of
                None \<Rightarrow> NaN
              | Some e \<Rightarrow>
                  roundToNumber
                    (scale10 (of_nat (digitsValue 10 ip)
                              + of_nat (digitsValue 10 fp) / 10 ^ length fp) e)))"

text \<open>\<open>StrDecimalLiteral\<close>: an unsigned literal with an optional sign.\<close>

fun negate :: "jsnum \<Rightarrow> jsnum" where
  "negate NaN = NaN"
| "negate PosInf = NegInf"
| "negate NegInf = PosInf"
| "negate (Num x) = Num (- x)"

definition strDecimalLiteral :: "string \<Rightarrow> jsnum" where
  "strDecimalLiteral s =
     (case s of
        [] \<Rightarrow> NaN
      | c # t \<Rightarrow>
          if c = CHR ''+'' then strUnsignedDecimalLiteral t
          else if c = CHR ''-'' then negate (strUnsignedDecimalLiteral t)
          else strUnsignedDecimalLiteral s)"

text \<open>
  \<open>NonDecimalIntegerLiteral\<close>: \<open>0x\<close>, \<open>0o\<close> or \<open>0b\<close> (either case) and at least one
  digit of that radix. \<open>None\<close> when the string has no such prefix.
\<close>

definition radixOfPrefix :: "string \<Rightarrow> nat option" where
  "radixOfPrefix s =
     (case s of
        z # p # _ \<Rightarrow>
          if z = CHR ''0'' then
            (if p = CHR ''x'' \<or> p = CHR ''X'' then Some 16
             else if p = CHR ''o'' \<or> p = CHR ''O'' then Some 8
             else if p = CHR ''b'' \<or> p = CHR ''B'' then Some 2
             else None)
          else None
      | _ \<Rightarrow> None)"

definition strNumericLiteral :: "string \<Rightarrow> jsnum" where
  "strNumericLiteral s =
     (case radixOfPrefix s of
        Some radix \<Rightarrow>
          (let ds = drop 2 s
           in if ds = [] then NaN
              else if list_all (isDigit radix) ds
                then roundToNumber (of_nat (digitsValue radix ds))
              else NaN)
      | None \<Rightarrow> strDecimalLiteral s)"

text \<open>\<open>Number(s)\<close> for a string: white space is trimmed, and the empty string is 0.\<close>

definition Number :: "string \<Rightarrow> jsnum" where
  "Number s =
     (let t = trimString s in if t = [] then Num 0 else strNumericLiteral t)"


section \<open>The widget\<close>

text \<open>
  The class \<open>CounterApp\<close> of \<open>counter-app.js\<close>. Its fields \<open>_counter\<close>, \<open>_start\<close>,
  \<open>_min\<close> and \<open>_max\<close> (here \<open>counter\<close>, \<open>start\<close>, \<open>min_bound\<close> and
  \<open>max_bound\<close>) only ever hold finite numbers (the defaults, what \<open>_numAttr\<close>
  lets through, sums with \<open>\<plusminus>1\<close> and minima and maxima of those), so they are rationals
  here.

  The part of the shadow tree that \<open>_update\<close> writes is the record \<open>dom\<close>: the text of
  the nodes \<open>#num\<close>, \<open>#min\<close> and \<open>#max\<close> (kept as the number whose \<open>String\<close> is
  shown), the \<open>disabled\<close> flag of the buttons \<open>#inc\<close> and \<open>#dec\<close>, and the class list of
  \<open>#num\<close>. Before \<open>_render\<close> has run there are no such nodes: the field is \<open>None\<close>.

  \<open>rained\<close> counts the calls of \<open>_makeItRain\<close>, the one signal the widget sends to the
  confetti container.
\<close>

record dom =
  num_textContent :: rat
  min_textContent :: rat
  max_textContent :: rat
  inc_disabled :: bool
  dec_disabled :: bool
  num_classList :: "string list"

record counter_app =
  counter :: rat
  start :: rat
  min_bound :: rat
  max_bound :: rat
  shadow :: "dom option"
  rained :: nat

text \<open>The constructor's defaults.\<close>

definition constructor :: counter_app where
  "constructor =
     \<lparr>counter = 0, start = 0, min_bound = 0, max_bound = 10, shadow = None, rained = 0\<rparr>"

text \<open>
  \<open>_numAttr(name, fallback)\<close>; the first argument is what \<open>this.getAttribute(name)\<close>
  returns, \<open>None\<close> for \<open>null\<close>. The numbers of the form \<open>Num n\<close> are those
  \<open>Number.isFinite\<close> accepts.
\<close>

definition numAttr :: "string option \<Rightarrow> rat \<Rightarrow> rat" where
  "numAttr v fallback =
     (case v of
        None \<Rightarrow> fallback
      | Some s \<Rightarrow> (case Number s of Num n \<Rightarrow> n | _ \<Rightarrow> fallback))"

text \<open>\<open>_update()\<close>: every write is guarded by the node being there.\<close>

definition update :: "counter_app \<Rightarrow> counter_app" where
  "update st =
     (case shadow st of
        None \<Rightarrow> st
      | Some d \<Rightarrow>
          st\<lparr>shadow := Some (d\<lparr>
            num_textContent := counter st,
            min_textContent := min_bound st,
            max_textContent := max_bound st,
            inc_disabled := (counter st \<ge> max_bound st),
            dec_disabled := (counter st \<le> min_bound st),
            num_classList :=
              (if counter st = 18 then [''at-18'']
               else if counter st = 21 then [''at-21'']
               else if counter st = min_bound st then [''at-min'']
               else if counter st = max_bound st then [''at-max'']
               else [])
              @ (if counter st = min_bound st \<or> counter st = max_bound st
                 then [''bold''] else [])\<rparr>)\<rparr>)"

text \<open>\<open>_render()\<close>: the template's nodes, then \<open>_update()\<close>.\<close>

definition render :: "counter_app \<Rightarrow> counter_app" where
  "render st =
     update (st\<lparr>shadow := Some
       \<lparr>num_textContent = counter st, min_textContent = min_bound st,
        max_textContent = max_bound st, inc_disabled = False, dec_disabled = False,
        num_classList = [''number'']\<rparr>\<rparr>)"

text \<open>
  \<open>connectedCallback()\<close>; \<open>attrs\<close> is the element's attributes at that moment. The
  fallback of \<open>start\<close> is the counter just read.
\<close>

definition connectedCallback :: "(string \<rightharpoonup> string) \<Rightarrow> counter_app \<Rightarrow> counter_app" where
  "connectedCallback attrs st =
     (let st1 = st\<lparr>counter := numAttr (attrs ''counter'') (counter st)\<rparr>;
          st2 = st1\<lparr>start := numAttr (attrs ''start'') (counter st1)\<rparr>;
          st3 = st2\<lparr>min_bound := numAttr (attrs ''min'') (min_bound st2)\<rparr>;
          st4 = st3\<lparr>max_bound := numAttr (attrs ''max'') (max_bound st3)\<rparr>
      in render st4)"

text \<open>
  \<open>attributeChangedCallback(name, oldV, newV)\<close>. The browser calls it when the attribute
  has its new value, so \<open>getAttribute(name)\<close> in \<open>_numAttr\<close> is \<open>newV\<close>.
\<close>

definition attributeChangedCallback ::
  "string \<Rightarrow> string option \<Rightarrow> string option \<Rightarrow> counter_app \<Rightarrow> counter_app" where
  "attributeChangedCallback name oldV newV st =
     (if oldV = newV then st
      else
        let st1 = (if name = ''counter''
                   then st\<lparr>counter := numAttr newV (counter st)\<rparr> else st);
            st2 = (if name = ''start''
                   then st1\<lparr>start := numAttr newV (start st1)\<rparr> else st1);
            st3 = (if name = ''min''
                   then st2\<lparr>min_bound := numAttr newV (min_bound st2)\<rparr> else st2);
            st4 = (if name = ''max''
                   then st3\<lparr>max_bound := numAttr newV (max_bound st3)\<rparr> else st3)
        in update st4)"

text \<open>\<open>_makeItRain()\<close>: the call is counted; what the container does with it is its own.\<close>

definition makeItRain :: "counter_app \<Rightarrow> counter_app" where
  "makeItRain st = st\<lparr>rained := rained st + 1\<rparr>"

text \<open>
  \<open>_change(delta)\<close>. The line \<open>this.setAttribute('counter', String(this._counter))\<close>
  makes the browser call \<open>attributeChangedCallback\<close>, which reads back the number just
  written and calls \<open>_update()\<close>; the fields stay as they are and \<open>_update()\<close> follows
  here anyway, so the line adds nothing to the state of the model.
\<close>

definition change :: "rat \<Rightarrow> counter_app \<Rightarrow> counter_app" where
  "change delta st =
     (let next = counter st + delta
      in if next > max_bound st \<or> next < min_bound st then st
         else
           let st1 = update (st\<lparr>counter := next\<rparr>)
           in if counter st1 = 21 then makeItRain st1 else st1)"

text \<open>
  \<open>_doReset()\<close>. \<open>this._start\<close> is never \<open>null\<close> or \<open>undefined\<close>, so
  \<open>Number(this._start ?? this._counter)\<close> is \<open>this._start\<close>.
\<close>

definition doReset :: "counter_app \<Rightarrow> counter_app" where
  "doReset st =
     update (st\<lparr>counter := min (max_bound st) (max (min_bound st) (start st))\<rparr>)"

text \<open>
  \<open>_onKey(e)\<close>, given \<open>e.key\<close>; \<open>e.key.toLowerCase() === 'r'\<close> holds for the keys
  \<open>r\<close> and \<open>R\<close>.
\<close>

definition onKey :: "string \<Rightarrow> counter_app \<Rightarrow> counter_app" where
  "onKey key st =
     (if key = ''ArrowRight'' then change 1 st
      else if key = ''ArrowLeft'' then change (- 1) st
      else if key = ''r'' \<or> key = ''R'' then doReset st
      else st)"

text \<open>
  \<open>_onKey(e)\<close> for any event object. For a keyboard event \<open>e.key\<close> is a string; an
  event dispatched without a key has \<open>e.key\<close> undefined, here \<open>None\<close>. The two
  comparisons with \<open>===\<close> are then false, and \<open>e.key.toLowerCase()\<close> throws a
  \<open>TypeError\<close>.
\<close>

datatype error = TypeError

definition onKeyEvent :: "string option \<Rightarrow> counter_app \<Rightarrow> error + counter_app" where
  "onKeyEvent key st =
     (if key = Some ''ArrowRight'' then Inr (change 1 st)
      else if key = Some ''ArrowLeft'' then Inr (change (- 1) st)
      else
        (case key of
           None \<Rightarrow> Inl TypeError
         | Some k \<Rightarrow> if k = ''r'' \<or> k = ''R'' then Inr (doReset st) else Inr st))"

text \<open>
  What can happen to an attached widget: a click listener of \<open>_render\<close> runs, the key
  listener runs, or an attribute changes.
\<close>

datatype event =
    IncClick
  | DecClick
  | ResetClick
  | KeyDown string
  | AttributeChanged string "string option" "string option"

fun fire :: "event \<Rightarrow> counter_app \<Rightarrow> counter_app" where
  "fire IncClick st = change 1 st"
| "fire DecClick st = change (- 1) st"
| "fire ResetClick st = doReset st"
| "fire (KeyDown key) st = onKey key st"
| "fire (AttributeChanged name oldV newV) st = attributeChangedCallback name oldV newV st"

fun run :: "event list \<Rightarrow> counter_app \<Rightarrow> counter_app" where
  "run [] st = st"
| "run (e # es) st = run es (fire e st)"

text \<open>A widget attached with the given attributes.\<close>

definition attached :: "(string \<rightharpoonup> string) \<Rightarrow> counter_app" where
  "attached attrs = connectedCallback attrs constructor"


text \<open>
  Every entry into the widget, with its outcome: the attach, the events above, and a
  keydown event with or without a key. Only \<open>_onKey\<close> has a statement that can throw.
\<close>

datatype call =
    Connected "string \<Rightarrow> string option"
  | Fired event
  | KeyDownEvent "string option"

fun perform :: "call \<Rightarrow> counter_app \<Rightarrow> error + counter_app" where
  "perform (Connected attrs) st = Inr (connectedCallback attrs st)"
| "perform (Fired e) st = Inr (fire e st)"
| "perform (KeyDownEvent key) st = onKeyEvent key st"

section \<open>Notions of the specification\<close>

text \<open>The bound invariant of the specification: \<open>min \<le> value \<le> max\<close>.\<close>

definition withinBounds :: "counter_app \<Rightarrow> bool" where
  "withinBounds st = (min_bound st \<le> counter st \<and> counter st \<le> max_bound st)"

text \<open>
  The specification's transitions, \<open>step\<close> and \<open>reset\<close>, as events: the clicks and the
  keys, and no attribute change.
\<close>

fun userInput :: "event \<Rightarrow> bool" where
  "userInput (AttributeChanged _ _ _) = False"
| "userInput _ = True"

text \<open>\<open>clamp(x, lo, hi)\<close>, in the specification's words: \<open>x\<close> brought into \<open>[lo, hi]\<close>.\<close>

definition clamp :: "rat \<Rightarrow> rat \<Rightarrow> rat \<Rightarrow> rat" where
  "clamp x lo hi = (if x < lo then lo else if hi < x then hi else x)"

text \<open>
  The specification's colour-state class, by first-match priority over exact equalities:
  18 (highlight-A, the source's \<open>at-18\<close>), 21 (highlight-B, \<open>at-21\<close>), \<open>min\<close>, \<open>max\<close>.
\<close>

definition firstMatch :: "rat \<Rightarrow> rat \<Rightarrow> rat \<Rightarrow> string list" where
  "firstMatch v lo hi =
     (if v = 18 then [''at-18'']
      else if v = 21 then [''at-21'']
      else if v = lo then [''at-min'']
      else if v = hi then [''at-max'']
      else [])"

text \<open>The colour-state classes among the classes of a node.\<close>

definition colorClasses :: "string list \<Rightarrow> string list" where
  "colorClasses cs =
     filter (\<lambda>c. c \<in> set [''at-18'', ''at-21'', ''at-min'', ''at-max'']) cs"

text \<open>The colour-state class together with the emphasis class.\<close>

definition classesFor :: "rat \<Rightarrow> rat \<Rightarrow> rat \<Rightarrow> string list" where
  "classesFor v lo hi = firstMatch v lo hi @ (if v = lo \<or> v = hi then [''bold''] else [])"

text \<open>The page is rendered and shows the state: \<open>_update()\<close> would change nothing.\<close>

definition inSync :: "counter_app \<Rightarrow> bool" where
  "inSync st = (shadow st \<noteq> None \<and> update st = st)"

text \<open>A blank string: empty, or white space only.\<close>

definition blank :: "string \<Rightarrow> bool" where
  "blank s = list_all isStrWhiteSpaceChar s"

text \<open>
  A numeric string, written down apart from \<open>Number\<close>, as a reader of the text sees it:
  a decimal numeral with an optional sign, an optional fraction and an optional exponent,
  recognised character by character; \<open>Infinity\<close> with an optional sign; or an integer
  in radix 16, 8 or 2 with its prefix.
\<close>

datatype phase =
  Start | Signed | IntPart | PointOnly | FracPart | ExpMark | ExpSigned | ExpPart | Reject

fun stepPhase :: "phase \<Rightarrow> char \<Rightarrow> phase" where
  "stepPhase q c =
     (if isDigit 10 c then
        (case q of
           Start \<Rightarrow> IntPart | Signed \<Rightarrow> IntPart | IntPart \<Rightarrow> IntPart
         | PointOnly \<Rightarrow> FracPart | FracPart \<Rightarrow> FracPart
         | ExpMark \<Rightarrow> ExpPart | ExpSigned \<Rightarrow> ExpPart | ExpPart \<Rightarrow> ExpPart
         | Reject \<Rightarrow> Reject)
      else if c = CHR ''+'' \<or> c = CHR ''-'' then
        (case q of Start \<Rightarrow> Signed | ExpMark \<Rightarrow> ExpSigned | _ \<Rightarrow> Reject)
      else if c = CHR ''.'' then
        (case q of
           Start \<Rightarrow> PointOnly | Signed \<Rightarrow> PointOnly | IntPart \<Rightarrow> FracPart
         | _ \<Rightarrow> Reject)
      else if c = CHR ''e'' \<or> c = CHR ''E'' then
        (case q of IntPart \<Rightarrow> ExpMark | FracPart \<Rightarrow> ExpMark | _ \<Rightarrow> Reject)
      else Reject)"

fun scan :: "phase \<Rightarrow> string \<Rightarrow> phase" where
  "scan q [] = q"
| "scan q (c # cs) = scan (stepPhase q c) cs"

fun accepting :: "phase \<Rightarrow> bool" where
  "accepting IntPart = True"
| "accepting FracPart = True"
| "accepting ExpPart = True"
| "accepting _ = False"

definition radixLiteral :: "string \<Rightarrow> bool" where
  "radixLiteral t =
     (case t of
        z # p # ds \<Rightarrow>
          z = CHR ''0'' \<and> ds \<noteq> []
          \<and> ((p = CHR ''x'' \<or> p = CHR ''X'') \<and> list_all (isDigit 16) ds
             \<or> (p = CHR ''o'' \<or> p = CHR ''O'') \<and> list_all (isDigit 8) ds
             \<or> (p = CHR ''b'' \<or> p = CHR ''B'') \<and> list_all (isDigit 2) ds)
      | _ \<Rightarrow> False)"

definition numericLiteral :: "string \<Rightarrow> bool" where
  "numericLiteral t =
     (t = ''Infinity'' \<or> t = ''+Infinity'' \<or> t = ''-Infinity''
      \<or> accepting (scan Start t) \<or> radixLiteral t)"

text \<open>
  A non-numeric input string: not blank, and with the white space around it taken away
  not a numeric string.
\<close>

definition nonNumeric :: "string \<Rightarrow> bool" where
  "nonNumeric s = (\<not> blank s \<and> \<not> numericLiteral (trimString s))"

section \<open>Reading numbers\<close>

lemmas number_defs = Number_def trimString_def isStrWhiteSpaceChar_def strNumericLiteral_def
  radixOfPrefix_def strDecimalLiteral_def strUnsignedDecimalLiteral_def exponentPart_def
  scale10_def roundToNumber_def digitsValue_def isDigit_def digitValue_def

lemma Number_literals:
  "Number [] = Num 0"
  "Number ''3'' = Num 3"
  "Number ''5'' = Num 5"
  "Number ''18'' = Num 18"
  "Number ''21'' = Num 21"
  "Number ''25'' = Num 25"
  "Number ''30'' = Num 30"
  "Number ''50'' = Num 50"
  "Number ''100'' = Num 100"
  "Number ''abc'' = NaN"
  "Number '' '' = Num 0"
  by (simp_all add: number_defs)

text \<open>The recogniser of numeric strings and \<open>Number\<close> agree.\<close>

declare stepPhase.simps [simp del]

lemma not_digit_chars [simp]:
  "\<not> isDigit 10 (CHR ''+'')" "\<not> isDigit 10 (CHR ''-'')" "\<not> isDigit 10 (CHR ''.'')"
  "\<not> isDigit 10 (CHR ''e'')" "\<not> isDigit 10 (CHR ''E'')" "\<not> isDigit 10 (CHR ''I'')"
  "\<not> isDigit 10 (CHR ''x'')" "\<not> isDigit 10 (CHR ''X'')" "\<not> isDigit 10 (CHR ''o'')"
  "\<not> isDigit 10 (CHR ''O'')" "\<not> isDigit 10 (CHR ''b'')" "\<not> isDigit 10 (CHR ''B'')"
  by (simp_all add: isDigit_def digitValue_def)

lemma scan_append: "scan q (a @ b) = scan (scan q a) b"
  by (induction a arbitrary: q) simp_all

lemma scan_Reject [simp]: "scan Reject cs = Reject"
  by (induction cs) (simp_all add: stepPhase.simps)

lemma scan_digits:
  assumes "list_all (isDigit 10) ds"
  shows "scan IntPart ds = IntPart" and "scan FracPart ds = FracPart"
    and "scan ExpPart ds = ExpPart"
  using assms by (induction ds) (simp_all add: stepPhase.simps)

lemma scan_digits1:
  assumes "list_all (isDigit 10) ds" and "ds \<noteq> []"
  shows "scan Start ds = IntPart" and "scan Signed ds = IntPart"
    and "scan PointOnly ds = FracPart"
    and "scan ExpMark ds = ExpPart" and "scan ExpSigned ds = ExpPart"
  using assms by (cases ds; simp add: stepPhase.simps scan_digits)+

lemma blank_trimString: "(trimString s = []) = blank s"
proof
  assume "trimString s = []"
  then have a: "\<forall>x\<in>set (dropWhile isStrWhiteSpaceChar s). isStrWhiteSpaceChar x"
    by (simp add: trimString_def)
  have "dropWhile isStrWhiteSpaceChar s = []"
  proof (rule ccontr)
    assume n: "dropWhile isStrWhiteSpaceChar s \<noteq> []"
    then have "\<not> isStrWhiteSpaceChar (hd (dropWhile isStrWhiteSpaceChar s))"
      by (rule hd_dropWhile)
    moreover from n have "hd (dropWhile isStrWhiteSpaceChar s) \<in> set (dropWhile isStrWhiteSpaceChar s)"
      by simp
    ultimately show False using a by blast
  qed
  then show "blank s" by (simp add: blank_def list_all_iff)
next
  assume "blank s"
  then have "dropWhile isStrWhiteSpaceChar s = []"
    by (simp add: blank_def list_all_iff)
  then show "trimString s = []"
    unfolding trimString_def by (simp del: dropWhile_eq_Nil_conv)
qed


lemma roundToNumber_not_NaN [simp]: "roundToNumber x \<noteq> NaN"
  by (simp add: roundToNumber_def)

text \<open>The exponent part, seen from the end of the mantissa.\<close>

lemma scan_nondigits:
  assumes "\<not> list_all (isDigit 10) u"
  shows "scan ExpSigned u = Reject" and "scan ExpPart u = Reject"
  using assms by (induction u) (auto simp: stepPhase.simps)

lemma scan_ExpMark_nondigits:
  assumes "\<not> list_all (isDigit 10) u" and "u = d # w" and "d \<noteq> CHR ''+''" and "d \<noteq> CHR ''-''"
  shows "scan ExpMark u = Reject"
  using assms scan_nondigits(2) [of w] by (auto simp: stepPhase.simps)

lemma exponentPart_accepting:
  assumes "q = IntPart \<or> q = FracPart"
    and "r = [] \<or> \<not> isDigit 10 (hd r)"
    and "q = IntPart \<longrightarrow> r = [] \<or> hd r \<noteq> CHR ''.''"
  shows "accepting (scan q r) = (exponentPart r \<noteq> None)"
proof (cases r)
  case Nil
  with assms(1) show ?thesis by (auto simp: exponentPart_def)
next
  case (Cons c t)
  with assms(2) have nd: "\<not> isDigit 10 c" by simp
  show ?thesis
  proof (cases "c = CHR ''e'' \<or> c = CHR ''E''")
    case False
    with nd assms(1,3) Cons have "scan q r = Reject"
      by (auto simp: stepPhase.simps)
    with False Cons show ?thesis by (simp add: exponentPart_def)
  next
    case True
    with assms(1) Cons have m: "scan q r = scan ExpMark t"
      by (auto simp: stepPhase.simps)
    show ?thesis
    proof (cases t)
      case Nil
      with m True Cons show ?thesis by (simp add: exponentPart_def)
    next
      case (Cons d u)
      show ?thesis
      proof (cases "d = CHR ''+'' \<or> d = CHR ''-''")
        case sg: True
        with Cons m have m': "scan q r = scan ExpSigned u"
          by (auto simp: stepPhase.simps)
        have e: "(exponentPart r \<noteq> None) = (u \<noteq> [] \<and> list_all (isDigit 10) u)"
          using True \<open>r = c # t\<close> Cons sg by (auto simp: exponentPart_def Let_def)
        show ?thesis
        proof (cases "u \<noteq> [] \<and> list_all (isDigit 10) u")
          case True
          with m' e show ?thesis by (simp add: scan_digits1)
        next
          case False
          then have "scan ExpSigned u = ExpSigned \<or> scan ExpSigned u = Reject"
            using scan_nondigits(1) [of u] by (cases u) auto
          with m' e False show ?thesis by auto
        qed
      next
        case ns: False
        have e: "(exponentPart r \<noteq> None) = list_all (isDigit 10) t"
          using True \<open>r = c # t\<close> Cons ns by (auto simp: exponentPart_def Let_def)
        show ?thesis
        proof (cases "list_all (isDigit 10) t")
          case True
          have "scan ExpMark t = ExpPart"
            by (rule scan_digits1(4)) (use True Cons in auto)
          with m e True show ?thesis by simp
        next
          case False
          with Cons ns have "scan ExpMark t = Reject"
            using scan_ExpMark_nondigits [of t d u] by simp
          with m e False show ?thesis by simp
        qed
      qed
    qed
  qed
qed


lemma stepPhase_nondigit_PointOnly: "\<not> isDigit 10 c \<Longrightarrow> stepPhase PointOnly c = Reject"
  by (simp add: stepPhase.simps)

lemma dropWhile_digit_head:
  "dropWhile (isDigit 10) t = [] \<or> \<not> isDigit 10 (hd (dropWhile (isDigit 10) t))"
  using hd_dropWhile [of "isDigit 10" t] by blast

lemma unsigned_unfold:
  assumes "v \<noteq> ''Infinity''"
  shows "(strUnsignedDecimalLiteral v \<noteq> NaN) =
     (case dropWhile (isDigit 10) v of
        [] \<Rightarrow> takeWhile (isDigit 10) v \<noteq> []
      | c # t \<Rightarrow>
          if c = CHR ''.''
          then \<not> (takeWhile (isDigit 10) v = [] \<and> takeWhile (isDigit 10) t = [])
               \<and> exponentPart (dropWhile (isDigit 10) t) \<noteq> None
          else takeWhile (isDigit 10) v \<noteq> [] \<and> exponentPart (c # t) \<noteq> None)"
proof (cases "dropWhile (isDigit 10) v")
  case Nil
  then show ?thesis using assms
    by (simp add: strUnsignedDecimalLiteral_def Let_def exponentPart_def
          del: dropWhile_eq_Nil_conv takeWhile_eq_all_conv)
next
  case (Cons c t)
  then show ?thesis using assms
    by (simp add: strUnsignedDecimalLiteral_def Let_def
          del: dropWhile_eq_Nil_conv takeWhile_eq_all_conv split: option.splits)
qed

lemma unsigned_accepting:
  assumes q0: "q0 = Signed \<or> q0 = Start \<and> (v = [] \<or> hd v \<noteq> CHR ''+'' \<and> hd v \<noteq> CHR ''-'')"
    and ninf: "v \<noteq> ''Infinity''"
  shows "(strUnsignedDecimalLiteral v \<noteq> NaN) = accepting (scan q0 v)"
proof -
  define ip where "ip = takeWhile (isDigit 10) v"
  define r where "r = dropWhile (isDigit 10) v"
  have v: "v = ip @ r" by (simp add: ip_def r_def)
  have ipd: "list_all (isDigit 10) ip"
    by (simp add: ip_def list_all_iff) (meson set_takeWhileD)
  have rh: "r = [] \<or> \<not> isDigit 10 (hd r)"
    unfolding r_def by (rule dropWhile_digit_head)
  have after_ip: "scan q0 ip = (if ip = [] then q0 else IntPart)"
    using q0 ipd by (auto simp: scan_digits1)
  have sc: "scan q0 v = scan (if ip = [] then q0 else IntPart) r"
    by (simp add: v scan_append after_ip)
  have pu: "(strUnsignedDecimalLiteral v \<noteq> NaN) =
     (case r of
        [] \<Rightarrow> ip \<noteq> []
      | c # t \<Rightarrow>
          if c = CHR ''.''
          then \<not> (ip = [] \<and> takeWhile (isDigit 10) t = [])
               \<and> exponentPart (dropWhile (isDigit 10) t) \<noteq> None
          else ip \<noteq> [] \<and> exponentPart (c # t) \<noteq> None)"
    unfolding ip_def r_def by (rule unsigned_unfold [OF ninf])
  show ?thesis
  proof (cases r)
    case Nil
    then have "(strUnsignedDecimalLiteral v \<noteq> NaN) = (ip \<noteq> [])"
      using pu by simp
    moreover have "accepting (scan q0 v) = (ip \<noteq> [])"
      using sc Nil q0 by auto
    ultimately show ?thesis by simp
  next
    case (Cons c t)
    with rh have nd: "\<not> isDigit 10 c" by simp
    show ?thesis
    proof (cases "c = CHR ''.''")
      case True
      define fp where "fp = takeWhile (isDigit 10) t"
      define r' where "r' = dropWhile (isDigit 10) t"
      have t: "t = fp @ r'" by (simp add: fp_def r'_def)
      have fpd: "list_all (isDigit 10) fp"
        by (simp add: fp_def list_all_iff) (meson set_takeWhileD)
      have rh': "r' = [] \<or> \<not> isDigit 10 (hd r')"
        unfolding r'_def by (rule dropWhile_digit_head)
      have p: "(strUnsignedDecimalLiteral v \<noteq> NaN)
                 = (\<not> (ip = [] \<and> fp = []) \<and> exponentPart r' \<noteq> None)"
        using pu Cons True by (simp add: fp_def r'_def)
      have dot: "scan q0 v = scan (if ip = [] then PointOnly else FracPart) t"
        using sc Cons True q0 by (auto simp: stepPhase.simps)
      show ?thesis
      proof (cases "ip = [] \<and> fp = []")
        case empty: True
        then have "scan q0 v = scan PointOnly r'" using dot t by simp
        moreover have "\<not> accepting (scan PointOnly r')"
          using rh' by (cases r') (auto simp: stepPhase_nondigit_PointOnly)
        ultimately show ?thesis using p empty by simp
      next
        case False
        then have "scan (if ip = [] then PointOnly else FracPart) fp = FracPart"
          using fpd by (auto simp: scan_digits scan_digits1)
        then have "scan q0 v = scan FracPart r'"
          using dot t by (simp add: scan_append)
        moreover have "accepting (scan FracPart r') = (exponentPart r' \<noteq> None)"
          by (rule exponentPart_accepting) (use rh' in auto)
        ultimately show ?thesis using p False by simp
      qed
    next
      case False
      have p: "(strUnsignedDecimalLiteral v \<noteq> NaN) = (ip \<noteq> [] \<and> exponentPart r \<noteq> None)"
        using pu Cons False by simp
      show ?thesis
      proof (cases "ip = []")
        case True
        then have "v = c # t" using v Cons by simp
        then have "scan q0 v = Reject"
          using q0 nd False by (auto simp: stepPhase.simps)
        then show ?thesis using p True by simp
      next
        case nonempty: False
        then have "scan q0 v = scan IntPart r" using sc by simp
        moreover have "accepting (scan IntPart r) = (exponentPart r \<noteq> None)"
          by (rule exponentPart_accepting) (use rh Cons False in auto)
        ultimately show ?thesis using p nonempty by simp
      qed
    qed
  qed
qed

lemma negate_NaN [simp]: "(negate x = NaN) = (x = NaN)"
  by (cases x) simp_all

lemma scan_Infinity [simp]:
  "scan Start ''Infinity'' = Reject" "scan Signed ''Infinity'' = Reject"
  by (simp_all add: stepPhase.simps)

lemma strUnsigned_Infinity [simp]: "strUnsignedDecimalLiteral ''Infinity'' = PosInf"
  by (simp add: strUnsignedDecimalLiteral_def)

lemma decimal_accepting:
  "(strDecimalLiteral t \<noteq> NaN) =
     (t = ''Infinity'' \<or> t = ''+Infinity'' \<or> t = ''-Infinity'' \<or> accepting (scan Start t))"
proof (cases t)
  case Nil
  then show ?thesis by (simp add: strDecimalLiteral_def)
next
  case (Cons c u)
  show ?thesis
  proof (cases "c = CHR ''+'' \<or> c = CHR ''-''")
    case True
    then have s: "scan Start t = scan Signed u"
      using Cons by (auto simp: stepPhase.simps)
    from True Cons have p: "(strDecimalLiteral t \<noteq> NaN) = (strUnsignedDecimalLiteral u \<noteq> NaN)"
      by (auto simp: strDecimalLiteral_def)
    show ?thesis
    proof (cases "u = ''Infinity''")
      case inf: True
      with p True Cons show ?thesis by auto
    next
      case False
      then have "(strUnsignedDecimalLiteral u \<noteq> NaN) = accepting (scan Signed u)"
        by (intro unsigned_accepting) simp_all
      with p s False True Cons show ?thesis by auto
    qed
  next
    case False
    with Cons have p: "(strDecimalLiteral t \<noteq> NaN) = (strUnsignedDecimalLiteral t \<noteq> NaN)"
      by (simp add: strDecimalLiteral_def)
    show ?thesis
    proof (cases "t = ''Infinity''")
      case True
      then show ?thesis using p by simp
    next
      case ninf: False
      then have "(strUnsignedDecimalLiteral t \<noteq> NaN) = accepting (scan Start t)"
        by (intro unsigned_accepting) (use False Cons in auto)
      with p ninf False Cons show ?thesis by auto
    qed
  qed
qed

lemma radixOfPrefix_simps:
  "radixOfPrefix [] = None"
  "radixOfPrefix [z] = None"
  "radixOfPrefix (z # p # ds) =
     (if z = CHR ''0'' then
        (if p = CHR ''x'' \<or> p = CHR ''X'' then Some 16
         else if p = CHR ''o'' \<or> p = CHR ''O'' then Some 8
         else if p = CHR ''b'' \<or> p = CHR ''B'' then Some 2
         else None)
      else None)"
  by (simp_all add: radixOfPrefix_def)

lemma radixOfPrefix_SomeD:
  assumes "radixOfPrefix t = Some radix"
  shows "\<exists>p ds. t = CHR ''0'' # p # ds
           \<and> ((p = CHR ''x'' \<or> p = CHR ''X'') \<and> radix = 16
              \<or> (p = CHR ''o'' \<or> p = CHR ''O'') \<and> radix = 8
              \<or> (p = CHR ''b'' \<or> p = CHR ''B'') \<and> radix = 2)"
proof (cases t)
  case Nil
  with assms show ?thesis by (simp add: radixOfPrefix_simps)
next
  case (Cons z u)
  show ?thesis
  proof (cases u)
    case Nil
    with Cons assms show ?thesis by (simp add: radixOfPrefix_simps)
  next
    case (Cons p ds)
    have r: "radixOfPrefix (z # p # ds) = Some radix"
      using assms \<open>t = z # u\<close> Cons by simp
    then have z: "z = CHR ''0''"
      by (simp add: radixOfPrefix_simps split: if_splits)
    from r z have "(p = CHR ''x'' \<or> p = CHR ''X'') \<and> radix = 16
              \<or> (p = CHR ''o'' \<or> p = CHR ''O'') \<and> radix = 8
              \<or> (p = CHR ''b'' \<or> p = CHR ''B'') \<and> radix = 2"
      by (simp add: radixOfPrefix_simps split: if_splits)
    with z \<open>t = z # u\<close> Cons show ?thesis by blast
  qed
qed


lemma stepPhase_IntPart_radix:
  "stepPhase IntPart (CHR ''x'') = Reject" "stepPhase IntPart (CHR ''X'') = Reject"
  "stepPhase IntPart (CHR ''o'') = Reject" "stepPhase IntPart (CHR ''O'') = Reject"
  "stepPhase IntPart (CHR ''b'') = Reject" "stepPhase IntPart (CHR ''B'') = Reject"
  by (simp_all add: stepPhase.simps)

lemma radixOfPrefix_Some:
  assumes "radixOfPrefix t = Some radix"
  shows "(strNumericLiteral t \<noteq> NaN) = radixLiteral t"
    and "\<not> accepting (scan Start t)"
    and "t \<noteq> ''Infinity''" and "t \<noteq> ''+Infinity''" and "t \<noteq> ''-Infinity''"
proof -
  from radixOfPrefix_SomeD [OF assms] obtain p ds where t: "t = CHR ''0'' # p # ds"
    and pr: "(p = CHR ''x'' \<or> p = CHR ''X'') \<and> radix = 16
              \<or> (p = CHR ''o'' \<or> p = CHR ''O'') \<and> radix = 8
              \<or> (p = CHR ''b'' \<or> p = CHR ''B'') \<and> radix = 2"
    by blast
  have num: "(strNumericLiteral t \<noteq> NaN) = (ds \<noteq> [] \<and> list_all (isDigit radix) ds)"
    using assms unfolding strNumericLiteral_def by (simp add: Let_def t)
  have lit: "radixLiteral t =
       (ds \<noteq> []
        \<and> ((p = CHR ''x'' \<or> p = CHR ''X'') \<and> list_all (isDigit 16) ds
           \<or> (p = CHR ''o'' \<or> p = CHR ''O'') \<and> list_all (isDigit 8) ds
           \<or> (p = CHR ''b'' \<or> p = CHR ''B'') \<and> list_all (isDigit 2) ds))"
    unfolding t radixLiteral_def by simp
  from pr show "(strNumericLiteral t \<noteq> NaN) = radixLiteral t"
    unfolding num lit by auto
  have z: "stepPhase Start (CHR ''0'') = IntPart"
    by (simp add: stepPhase.simps isDigit_def digitValue_def)
  from pr have "stepPhase IntPart p = Reject"
    using stepPhase_IntPart_radix by blast
  with z show "\<not> accepting (scan Start t)" unfolding t by simp
  show "t \<noteq> ''Infinity''" "t \<noteq> ''+Infinity''" "t \<noteq> ''-Infinity''"
    unfolding t by simp_all
qed

lemma radixOfPrefix_None:
  assumes "radixOfPrefix t = None"
  shows "\<not> radixLiteral t"
  using assms
  by (auto simp: radixOfPrefix_def radixLiteral_def split: list.splits if_splits)

lemma numericLiteral_iff: "numericLiteral t = (strNumericLiteral t \<noteq> NaN)"
proof (cases "radixOfPrefix t")
  case None
  then have "strNumericLiteral t = strDecimalLiteral t" by (simp add: strNumericLiteral_def)
  with radixOfPrefix_None [OF None] decimal_accepting [of t] show ?thesis
    by (simp add: numericLiteral_def)
next
  case (Some radix)
  from radixOfPrefix_Some [OF Some] show ?thesis by (simp add: numericLiteral_def)
qed

lemma Number_NaN_iff: "(Number s = NaN) = (\<not> blank s \<and> \<not> numericLiteral (trimString s))"
  by (simp add: Number_def Let_def blank_trimString numericLiteral_iff)

section \<open>What \<open>_update\<close> writes\<close>

lemma update_None: "shadow st = None \<Longrightarrow> update st = st"
  by (simp add: update_def)

lemma update_Some:
  "shadow st = Some d \<Longrightarrow>
   update st = st\<lparr>shadow := Some (d\<lparr>
     num_textContent := counter st, min_textContent := min_bound st,
     max_textContent := max_bound st, inc_disabled := (counter st \<ge> max_bound st),
     dec_disabled := (counter st \<le> min_bound st),
     num_classList := classesFor (counter st) (min_bound st) (max_bound st)\<rparr>)\<rparr>"
  by (simp add: update_def classesFor_def firstMatch_def split del: if_split cong: if_cong)

lemma update_fields [simp]:
  "counter (update st) = counter st"
  "start (update st) = start st"
  "min_bound (update st) = min_bound st"
  "max_bound (update st) = max_bound st"
  "rained (update st) = rained st"
  by (cases "shadow st"; simp add: update_None update_Some)+

lemma update_shadow_None [simp]: "(shadow (update st) = None) = (shadow st = None)"
  by (cases "shadow st") (simp_all add: update_None update_Some)

lemma update_shadow_Some [simp]:
  "(\<exists>d. shadow (update st) = Some d) = (\<exists>d. shadow st = Some d)"
  by (cases "shadow st") (simp_all add: update_None update_Some)

lemma update_shadow_sync:
  assumes "shadow (update st) = Some d"
  shows "inc_disabled d = (counter st \<ge> max_bound st)"
    and "dec_disabled d = (counter st \<le> min_bound st)"
    and "num_classList d = classesFor (counter st) (min_bound st) (max_bound st)"
    and "num_textContent d = counter st"
  using assms by (cases "shadow st"; auto simp: update_None update_Some)+

lemma update_idem [simp]: "update (update st) = update st"
  by (cases "shadow st") (simp_all add: update_None update_Some)

lemma update_rained: "update (st\<lparr>rained := n\<rparr>) = (update st)\<lparr>rained := n\<rparr>"
  by (cases "shadow st") (simp_all add: update_None update_Some)

lemma update_counter_same: "counter st = c \<Longrightarrow> (update st)\<lparr>counter := c\<rparr> = update st"
  by (cases "shadow st") (auto simp: update_None update_Some)

lemma colorClasses_classesFor: "colorClasses (classesFor v lo hi) = firstMatch v lo hi"
  by (simp add: colorClasses_def classesFor_def firstMatch_def)

lemma length_firstMatch: "length (firstMatch v lo hi) \<le> 1"
  by (simp add: firstMatch_def)

lemma classesFor_18_min:
  "''at-18'' \<in> set (classesFor 18 18 hi) \<and> ''at-min'' \<notin> set (classesFor 18 18 hi)"
  by (simp add: classesFor_def firstMatch_def)

section \<open>What the operations leave alone\<close>

lemma change_fields [simp]:
  "start (change d st) = start st"
  "min_bound (change d st) = min_bound st"
  "max_bound (change d st) = max_bound st"
  by (simp_all add: change_def makeItRain_def Let_def)

lemma doReset_fields [simp]:
  "start (doReset st) = start st"
  "min_bound (doReset st) = min_bound st"
  "max_bound (doReset st) = max_bound st"
  "rained (doReset st) = rained st"
  "counter (doReset st) = min (max_bound st) (max (min_bound st) (start st))"
  by (simp_all add: doReset_def)

lemma userInput_fields:
  assumes "userInput e"
  shows "start (fire e st) = start st \<and> min_bound (fire e st) = min_bound st
         \<and> max_bound (fire e st) = max_bound st"
  using assms by (cases e) (simp_all add: onKey_def)

lemma run_userInput_fields:
  "list_all userInput es \<Longrightarrow>
   start (run es st) = start st \<and> min_bound (run es st) = min_bound st
   \<and> max_bound (run es st) = max_bound st"
proof (induction es arbitrary: st)
  case Nil
  then show ?case by simp
next
  case (Cons e es)
  then show ?case using userInput_fields [of e st] by simp
qed

section \<open>The bounds under steps and resets\<close>

lemma change_withinBounds: "withinBounds st \<Longrightarrow> withinBounds (change d st)"
  by (auto simp: withinBounds_def change_def makeItRain_def Let_def)

lemma doReset_withinBounds: "min_bound st \<le> max_bound st \<Longrightarrow> withinBounds (doReset st)"
  by (auto simp: withinBounds_def)

lemma fire_withinBounds:
  assumes "withinBounds st" and "userInput e"
  shows "withinBounds (fire e st)"
proof -
  from assms(1) have le: "min_bound st \<le> max_bound st"
    by (simp add: withinBounds_def)
  show ?thesis
  proof (cases e)
    case IncClick
    then show ?thesis using assms(1) by (simp add: change_withinBounds)
  next
    case DecClick
    then show ?thesis using assms(1) by (simp add: change_withinBounds)
  next
    case ResetClick
    then show ?thesis using le by (simp add: doReset_withinBounds)
  next
    case (KeyDown key)
    then show ?thesis using le assms(1)
      by (simp add: onKey_def change_withinBounds doReset_withinBounds)
  next
    case (AttributeChanged name oldV newV)
    then show ?thesis using assms(2) by simp
  qed
qed

lemma run_withinBounds:
  "withinBounds st \<Longrightarrow> list_all userInput es \<Longrightarrow> withinBounds (run es st)"
  by (induction es arbitrary: st) (simp_all add: fire_withinBounds)

section \<open>The page follows the state\<close>

lemma inSync_change: "inSync st \<Longrightarrow> inSync (change d st)"
  by (auto simp: change_def Let_def makeItRain_def update_rained inSync_def)

lemma inSync_doReset: "inSync st \<Longrightarrow> inSync (doReset st)"
  by (auto simp: doReset_def inSync_def)

lemma inSync_attributeChangedCallback:
  "inSync st \<Longrightarrow> inSync (attributeChangedCallback name oldV newV st)"
  by (auto simp: attributeChangedCallback_def inSync_def Let_def)

lemma inSync_fire: "inSync st \<Longrightarrow> inSync (fire e st)"
  by (cases e)
     (simp_all add: inSync_change inSync_doReset inSync_attributeChangedCallback onKey_def)

lemma inSync_run: "inSync st \<Longrightarrow> inSync (run es st)"
  by (induction es arbitrary: st) (simp_all add: inSync_fire)

lemma inSync_attached: "inSync (attached attrs)"
  by (simp add: attached_def connectedCallback_def render_def Let_def inSync_def)

lemma inSync_shadow:
  assumes "inSync st"
  obtains d where "shadow st = Some d"
    and "inc_disabled d = (counter st \<ge> max_bound st)"
    and "dec_disabled d = (counter st \<le> min_bound st)"
    and "num_classList d = classesFor (counter st) (min_bound st) (max_bound st)"
    and "num_textContent d = counter st"
proof -
  from assms obtain d0 where d0: "shadow st = Some d0" and u: "update st = st"
    by (auto simp: inSync_def)
  from u d0 have "shadow (update st) = Some d0" by simp
  from update_shadow_sync [OF this] d0 that show ?thesis by blast
qed

section \<open>Widgets used in the scenarios\<close>

lemmas attach_defs = attached_def connectedCallback_def constructor_def render_def
  numAttr_def Number_literals Let_def

lemma attached_empty:
  "attached Map.empty =
     \<lparr>counter = 0, start = 0, min_bound = 0, max_bound = 10,
      shadow = Some \<lparr>num_textContent = 0, min_textContent = 0, max_textContent = 10,
                     inc_disabled = False, dec_disabled = True,
                     num_classList = [''at-min'', ''bold'']\<rparr>,
      rained = 0\<rparr>"
  by (simp add: attach_defs update_def)

lemma attached_max25:
  "attached [''max'' \<mapsto> ''25''] =
     \<lparr>counter = 0, start = 0, min_bound = 0, max_bound = 25,
      shadow = Some \<lparr>num_textContent = 0, min_textContent = 0, max_textContent = 25,
                     inc_disabled = False, dec_disabled = True,
                     num_classList = [''at-min'', ''bold'']\<rparr>,
      rained = 0\<rparr>"
  by (simp add: attach_defs update_def)

lemma attached_min3:
  "attached [''min'' \<mapsto> ''3''] =
     \<lparr>counter = 0, start = 0, min_bound = 3, max_bound = 10,
      shadow = Some \<lparr>num_textContent = 0, min_textContent = 3, max_textContent = 10,
                     inc_disabled = False, dec_disabled = True,
                     num_classList = []\<rparr>,
      rained = 0\<rparr>"
  by (simp add: attach_defs update_def)

lemma attached_start5:
  "attached [''start'' \<mapsto> ''5''] =
     \<lparr>counter = 0, start = 5, min_bound = 0, max_bound = 10,
      shadow = Some \<lparr>num_textContent = 0, min_textContent = 0, max_textContent = 10,
                     inc_disabled = False, dec_disabled = True,
                     num_classList = [''at-min'', ''bold'']\<rparr>,
      rained = 0\<rparr>"
  by (simp add: attach_defs update_def)

lemma attached_start21:
  "attached [''start'' \<mapsto> ''21'', ''max'' \<mapsto> ''25''] =
     \<lparr>counter = 0, start = 21, min_bound = 0, max_bound = 25,
      shadow = Some \<lparr>num_textContent = 0, min_textContent = 0, max_textContent = 25,
                     inc_disabled = False, dec_disabled = True,
                     num_classList = [''at-min'', ''bold'']\<rparr>,
      rained = 0\<rparr>"
  by (simp add: attach_defs update_def)

lemma attached_counter5:
  "attached [''counter'' \<mapsto> ''5''] =
     \<lparr>counter = 5, start = 5, min_bound = 0, max_bound = 10,
      shadow = Some \<lparr>num_textContent = 5, min_textContent = 0, max_textContent = 10,
                     inc_disabled = False, dec_disabled = False,
                     num_classList = []\<rparr>,
      rained = 0\<rparr>"
  by (simp add: attach_defs update_def)

lemma attached_counter50:
  "attached [''counter'' \<mapsto> ''50''] =
     \<lparr>counter = 50, start = 50, min_bound = 0, max_bound = 10,
      shadow = Some \<lparr>num_textContent = 50, min_textContent = 0, max_textContent = 10,
                     inc_disabled = True, dec_disabled = False,
                     num_classList = []\<rparr>,
      rained = 0\<rparr>"
  by (simp add: attach_defs update_def)

lemma attached_min18:
  "attached [''counter'' \<mapsto> ''18'', ''min'' \<mapsto> ''18'', ''max'' \<mapsto> ''30''] =
     \<lparr>counter = 18, start = 18, min_bound = 18, max_bound = 30,
      shadow = Some \<lparr>num_textContent = 18, min_textContent = 18, max_textContent = 30,
                     inc_disabled = False, dec_disabled = True,
                     num_classList = [''at-18'', ''bold'']\<rparr>,
      rained = 0\<rparr>"
  by (simp add: attach_defs update_def)

text \<open>Scenario A: the defaults and ten steps up.\<close>

lemma scenario_A:
  "run (replicate 10 IncClick) (attached Map.empty) =
     \<lparr>counter = 10, start = 0, min_bound = 0, max_bound = 10,
      shadow = Some \<lparr>num_textContent = 10, min_textContent = 0, max_textContent = 10,
                     inc_disabled = True, dec_disabled = False,
                     num_classList = [''at-max'', ''bold'']\<rparr>,
      rained = 0\<rparr>"
  unfolding attached_empty by code_simp

text \<open>Scenario B: \<open>max = 25\<close> and twenty-one steps up.\<close>

lemma scenario_B:
  "counter (run (replicate 21 IncClick) (attached [''max'' \<mapsto> ''25''])) = 21
   \<and> rained (run (replicate 21 IncClick) (attached [''max'' \<mapsto> ''25''])) = 1"
  unfolding attached_max25 by code_simp

text \<open>Scenario C: \<open>start = 5\<close>, the value set to 3, then a reset.\<close>

lemma scenario_C:
  "counter (run [AttributeChanged ''counter'' None (Some ''3'')]
              (attached [''start'' \<mapsto> ''5''])) = 3
   \<and> counter (run [AttributeChanged ''counter'' None (Some ''3''), ResetClick]
              (attached [''start'' \<mapsto> ''5''])) = 5"
  unfolding attached_start5
  by (simp add: attributeChangedCallback_def numAttr_def Number_literals doReset_def Let_def)

section \<open>The claims\<close>

subsection \<open>The bounds of the value\<close>

text \<open>
  C1, as amended. The specification has \<open>min \<le> value \<le> max\<close> in every state reached by
  steps, resets and attribute changes. The code keeps it under steps and resets: from a
  state within its bounds, every sequence of clicks and keys leads to a state within its
  bounds, and a reset alone brings the value within the bounds wherever \<open>min \<le> max\<close>.
  An attribute change is stored as it is read, without a look at the bounds.
\<close>

theorem bounds_kept_by_steps_and_resets:
  "(withinBounds st \<and> list_all userInput es \<longrightarrow> withinBounds (run es st))
   \<and> (min_bound st \<le> max_bound st \<longrightarrow> withinBounds (doReset st))"
  by (simp add: run_withinBounds doReset_withinBounds)

text \<open>The default widget, stepped up, reset and stepped down.\<close>

theorem bounds_kept_by_steps_and_resets_witness:
  "withinBounds (attached Map.empty)
   \<and> list_all userInput [IncClick, ResetClick, KeyDown ''ArrowLeft'']
   \<and> withinBounds (run [IncClick, ResetClick, KeyDown ''ArrowLeft''] (attached Map.empty))
   \<and> min_bound (attached Map.empty) \<le> max_bound (attached Map.empty)
   \<and> withinBounds (doReset (attached Map.empty))"
proof -
  have h1: "withinBounds (attached Map.empty)"
    by (simp add: attached_empty withinBounds_def)
  have h2: "list_all userInput [IncClick, ResetClick, KeyDown ''ArrowLeft'']"
    by simp
  have h3: "min_bound (attached Map.empty) \<le> max_bound (attached Map.empty)"
    by (simp add: attached_empty)
  from bounds_kept_by_steps_and_resets
         [of "attached Map.empty" "[IncClick, ResetClick, KeyDown ''ArrowLeft'']"]
       h1 h2 h3
  show ?thesis by blast
qed

text \<open>
  The default widget has \<open>min = 0\<close> and \<open>max = 10\<close>. Setting its attribute \<open>counter\<close>
  to \<open>100\<close> leaves the bounds as they are and makes the value 100.
\<close>

theorem counter_attribute_leaves_bounds:
  "withinBounds (attached Map.empty)
   \<and> min_bound (run [AttributeChanged ''counter'' None (Some ''100'')] (attached Map.empty))
       \<le> max_bound (run [AttributeChanged ''counter'' None (Some ''100'')] (attached Map.empty))
   \<and> \<not> withinBounds
         (run [AttributeChanged ''counter'' None (Some ''100'')] (attached Map.empty))"
  unfolding attached_empty
  by (simp add: withinBounds_def attributeChangedCallback_def numAttr_def Number_literals Let_def)

subsection \<open>Steps out of range\<close>

text \<open>
  C2. A step whose target \<open>value + delta\<close> is above \<open>max\<close> or below \<open>min\<close> returns the
  state it was given, whole: value, start, bounds, page and confetti count. \<open>change\<close> has
  no error result. In particular a step up at \<open>value = max\<close> and a step down at
  \<open>value = min\<close> change nothing.
\<close>

theorem change_out_of_range_is_noop:
  "(counter st + d > max_bound st \<or> counter st + d < min_bound st \<longrightarrow> change d st = st)
   \<and> (counter st = max_bound st \<longrightarrow> fire IncClick st = st \<and> change 1 st = st)
   \<and> (counter st = min_bound st \<longrightarrow> fire DecClick st = st \<and> change (- 1) st = st)"
  by (simp add: change_def)

text \<open>Scenario A's final state, at \<open>max\<close>, and the default widget, at \<open>min\<close>.\<close>

theorem change_out_of_range_is_noop_witness:
  "counter (run (replicate 10 IncClick) (attached Map.empty))
     = max_bound (run (replicate 10 IncClick) (attached Map.empty))
   \<and> change 1 (run (replicate 10 IncClick) (attached Map.empty))
     = run (replicate 10 IncClick) (attached Map.empty)
   \<and> counter (attached Map.empty) = min_bound (attached Map.empty)
   \<and> counter (attached Map.empty) + (- 1) < min_bound (attached Map.empty)
   \<and> change (- 1) (attached Map.empty) = attached Map.empty"
proof -
  have h1: "counter (run (replicate 10 IncClick) (attached Map.empty))
              = max_bound (run (replicate 10 IncClick) (attached Map.empty))"
    by (simp add: scenario_A)
  have h2: "counter (attached Map.empty) = min_bound (attached Map.empty)"
    by (simp add: attached_empty)
  have h3: "counter (attached Map.empty) + (- 1) < min_bound (attached Map.empty)"
    by (simp add: attached_empty)
  from change_out_of_range_is_noop
         [of "run (replicate 10 IncClick) (attached Map.empty)" 1]
       change_out_of_range_is_noop [of "attached Map.empty" "- 1"]
       h1 h2 h3
  show ?thesis by blast
qed

subsection \<open>Reset\<close>

text \<open>
  C3. Where \<open>min \<le> max\<close>, a reset sets the value to \<open>clamp(start, min, max)\<close> and
  leaves start and bounds alone. Scenario C: with \<open>start = 5\<close>, \<open>min = 0\<close>, \<open>max = 10\<close>
  and the value set to 3, a reset gives 5.
\<close>

theorem doReset_clamps_start:
  "(min_bound st \<le> max_bound st \<longrightarrow>
      counter (doReset st) = clamp (start st) (min_bound st) (max_bound st)
      \<and> start (doReset st) = start st
      \<and> min_bound (doReset st) = min_bound st
      \<and> max_bound (doReset st) = max_bound st)
   \<and> counter (run [AttributeChanged ''counter'' None (Some ''3'')]
                (attached [''start'' \<mapsto> ''5''])) = 3
   \<and> counter (run [AttributeChanged ''counter'' None (Some ''3''), ResetClick]
                (attached [''start'' \<mapsto> ''5''])) = 5"
  using scenario_C by (auto simp: clamp_def)

theorem doReset_clamps_start_witness:
  "min_bound (attached [''start'' \<mapsto> ''5'']) \<le> max_bound (attached [''start'' \<mapsto> ''5''])
   \<and> counter (doReset (attached [''start'' \<mapsto> ''5''])) = 5"
proof -
  have h: "min_bound (attached [''start'' \<mapsto> ''5''])
             \<le> max_bound (attached [''start'' \<mapsto> ''5''])"
    by (simp add: attached_start5)
  have c: "clamp (start (attached [''start'' \<mapsto> ''5'']))
             (min_bound (attached [''start'' \<mapsto> ''5'']))
             (max_bound (attached [''start'' \<mapsto> ''5''])) = 5"
    by (simp add: attached_start5 clamp_def)
  from doReset_clamps_start [of "attached [''start'' \<mapsto> ''5'']"] h c
  show ?thesis by simp
qed

subsection \<open>Confetti\<close>

text \<open>
  C4, as amended. The specification has the celebratory effect at every transition to 21,
  by step or by reset. In the code the call sits in \<open>_change\<close> alone: a step of
  \<open>+1\<close> or \<open>-1\<close> calls it exactly once when it changes the value and the new value is
  21, and not at all otherwise; a reset never calls it. Scenario B: with \<open>max = 25\<close>,
  twenty-one steps up from 0 give 21 and one call.
\<close>

theorem confetti_on_step_to_21:
  "(d = 1 \<or> d = - 1 \<longrightarrow>
      rained (change d st) =
        rained st + (if counter (change d st) \<noteq> counter st \<and> counter (change d st) = 21
                     then 1 else 0))
   \<and> rained (doReset st) = rained st
   \<and> counter (run (replicate 21 IncClick) (attached [''max'' \<mapsto> ''25''])) = 21
   \<and> rained (run (replicate 21 IncClick) (attached [''max'' \<mapsto> ''25''])) = 1"
  using scenario_B by (auto simp: change_def makeItRain_def Let_def)

text \<open>A step up from 20.\<close>

theorem confetti_on_step_to_21_witness:
  "rained (change 1 \<lparr>counter = 20, start = 0, min_bound = 0, max_bound = 25,
                      shadow = None, rained = 0\<rparr>) = 1"
proof -
  have c: "counter (change 1 \<lparr>counter = 20, start = 0, min_bound = 0, max_bound = 25,
                              shadow = None, rained = 0\<rparr>) = 21"
    by (simp add: change_def update_def makeItRain_def)
  from confetti_on_step_to_21
         [of 1 "\<lparr>counter = 20, start = 0, min_bound = 0, max_bound = 25,
                 shadow = None, rained = 0\<rparr>"] c
  show ?thesis by simp
qed

text \<open>
  With \<open>start = 21\<close> and \<open>max = 25\<close> the widget shows 0; a reset takes the value to 21
  and the confetti count stays where it was.
\<close>

theorem reset_to_21_without_confetti:
  "counter (attached [''start'' \<mapsto> ''21'', ''max'' \<mapsto> ''25'']) = 0
   \<and> counter (fire ResetClick (attached [''start'' \<mapsto> ''21'', ''max'' \<mapsto> ''25''])) = 21
   \<and> rained (fire ResetClick (attached [''start'' \<mapsto> ''21'', ''max'' \<mapsto> ''25'']))
       = rained (attached [''start'' \<mapsto> ''21'', ''max'' \<mapsto> ''25''])"
  unfolding attached_start21 by simp

subsection \<open>Attribute values that are not numbers\<close>

text \<open>
  C5, as amended. The specification has every non-numeric input string rejected, the field
  keeping its previous value, and no operation raising an error. In the code a blank
  string is not rejected: \<open>Number\<close> makes 0 of it and the field is set to 0. Every other
  non-numeric string is rejected, and they are exactly the strings \<open>Number\<close> makes \<open>NaN\<close>
  of; so is every string \<open>Number\<close> makes infinite. For such a string \<open>_numAttr\<close> returns
  its fallback: a change of the attribute leaves \<open>counter\<close>, \<open>start\<close>, \<open>min\<close> and
  \<open>max\<close> at their previous values, and at attach time \<open>counter\<close>, \<open>min\<close> and \<open>max\<close>
  keep their previous values while \<open>start\<close> takes the counter just read. The attach, the
  attribute changes, the clicks and a keydown event that carries a key raise nothing.
  Scenario D is the witness.
\<close>

theorem non_numeric_attribute_keeps_field:
  "(Number s = NaN) = nonNumeric s
   \<and> (nonNumeric s \<or> Number s = PosInf \<or> Number s = NegInf \<longrightarrow>
        numAttr (Some s) fallback = fallback
        \<and> counter (attributeChangedCallback name oldV (Some s) st) = counter st
        \<and> start (attributeChangedCallback name oldV (Some s) st) = start st
        \<and> min_bound (attributeChangedCallback name oldV (Some s) st) = min_bound st
        \<and> max_bound (attributeChangedCallback name oldV (Some s) st) = max_bound st
        \<and> (attrs ''counter'' = Some s \<longrightarrow>
             counter (connectedCallback attrs st) = counter st)
        \<and> (attrs ''min'' = Some s \<longrightarrow>
             min_bound (connectedCallback attrs st) = min_bound st)
        \<and> (attrs ''max'' = Some s \<longrightarrow>
             max_bound (connectedCallback attrs st) = max_bound st)
        \<and> (attrs ''start'' = Some s \<longrightarrow>
             start (connectedCallback attrs st) = counter (connectedCallback attrs st)))
   \<and> (blank s \<longrightarrow> numAttr (Some s) fallback = 0)
   \<and> (c \<noteq> KeyDownEvent None \<longrightarrow> (\<exists>st'. perform c st = Inr st'))"
proof -
  have nan: "(Number s = NaN) = nonNumeric s"
    by (simp add: Number_NaN_iff nonNumeric_def)
  have fb: "numAttr (Some s) x = x"
    if "nonNumeric s \<or> Number s = PosInf \<or> Number s = NegInf" for x
    using that nan by (auto simp: numAttr_def)
  have rejected: "numAttr (Some s) fallback = fallback
        \<and> counter (attributeChangedCallback name oldV (Some s) st) = counter st
        \<and> start (attributeChangedCallback name oldV (Some s) st) = start st
        \<and> min_bound (attributeChangedCallback name oldV (Some s) st) = min_bound st
        \<and> max_bound (attributeChangedCallback name oldV (Some s) st) = max_bound st
        \<and> (attrs ''counter'' = Some s \<longrightarrow>
             counter (connectedCallback attrs st) = counter st)
        \<and> (attrs ''min'' = Some s \<longrightarrow>
             min_bound (connectedCallback attrs st) = min_bound st)
        \<and> (attrs ''max'' = Some s \<longrightarrow>
             max_bound (connectedCallback attrs st) = max_bound st)
        \<and> (attrs ''start'' = Some s \<longrightarrow>
             start (connectedCallback attrs st) = counter (connectedCallback attrs st))"
    if h: "nonNumeric s \<or> Number s = PosInf \<or> Number s = NegInf"
    by (simp add: attributeChangedCallback_def connectedCallback_def render_def Let_def
          fb [OF h])
  have zero: "numAttr (Some s) fallback = 0" if "blank s"
    using that by (simp add: numAttr_def Number_def Let_def blank_trimString)
  have quiet: "\<exists>st'. perform c st = Inr st'" if "c \<noteq> KeyDownEvent None"
  proof (cases c)
    case (KeyDownEvent key)
    with that obtain k where "key = Some k" by (cases key) auto
    with KeyDownEvent show ?thesis by (simp add: onKeyEvent_def)
  qed simp_all
  from nan rejected zero quiet show ?thesis by blast
qed

text \<open>
  Scenario D: \<open>min\<close> is 3 and its attribute is set to \<open>abc\<close>. A widget attached
  with \<open>max\<close> \<open>abc\<close> keeps the maximum 10. The key \<open>r\<close> raises nothing.
\<close>

theorem non_numeric_attribute_keeps_field_witness:
  "nonNumeric ''abc''
   \<and> Number ''abc'' = NaN
   \<and> min_bound (attached [''min'' \<mapsto> ''3'']) = 3
   \<and> min_bound (attributeChangedCallback ''min'' (Some ''3'') (Some ''abc'')
                  (attached [''min'' \<mapsto> ''3''])) = 3
   \<and> blank '' '' \<and> numAttr (Some '' '') 3 = 0
   \<and> max_bound constructor = 10
   \<and> max_bound (connectedCallback [''max'' \<mapsto> ''abc''] constructor) = 10
   \<and> KeyDownEvent (Some ''r'') \<noteq> KeyDownEvent None
   \<and> (\<exists>st'. perform (KeyDownEvent (Some ''r'')) (attached Map.empty) = Inr st')"
proof -
  have h: "nonNumeric ''abc''"
    by (simp add: nonNumeric_def blank_def isStrWhiteSpaceChar_def trimString_def
          numericLiteral_def radixLiteral_def stepPhase.simps isDigit_def digitValue_def)
  have b: "blank '' ''"
    by (simp add: blank_def isStrWhiteSpaceChar_def)
  have k: "KeyDownEvent (Some ''r'') \<noteq> KeyDownEvent None"
    by simp
  have m: "min_bound (attached [''min'' \<mapsto> ''3'']) = 3"
    by (simp add: attached_min3)
  from non_numeric_attribute_keeps_field
         [of "''abc''" _ "''min''" "Some ''3''" "attached [''min'' \<mapsto> ''3'']" _
             "KeyDownEvent (Some ''r'')"]
       non_numeric_attribute_keeps_field
         [of "'' ''" 3 _ _ "attached Map.empty" _ "KeyDownEvent (Some ''r'')"]
       non_numeric_attribute_keeps_field
         [of "''abc''" _ _ _ constructor "[''max'' \<mapsto> ''abc'']"
             "KeyDownEvent (Some ''r'')"]
       h b k m
  show ?thesis by (simp add: constructor_def)
qed

text \<open>
  The strings of one space and of no character are blank and not numeric. With \<open>min\<close>
  at 3, setting its attribute to either makes \<open>min\<close> 0. Attached with \<open>counter\<close> 5
  and \<open>start\<close> \<open>abc\<close>, the widget has \<open>start\<close> 5 where the constructor left 0. A
  keydown event without a key ends in a \<open>TypeError\<close>.
\<close>

theorem blank_attribute_overwrites_field:
  "blank '' '' \<and> \<not> numericLiteral '' '' \<and> blank [] \<and> \<not> numericLiteral []
   \<and> min_bound (attached [''min'' \<mapsto> ''3'']) = 3
   \<and> min_bound (attributeChangedCallback ''min'' (Some ''3'') (Some '' '')
                  (attached [''min'' \<mapsto> ''3''])) = 0
   \<and> min_bound (attributeChangedCallback ''min'' (Some ''3'') (Some [])
                  (attached [''min'' \<mapsto> ''3''])) = 0
   \<and> nonNumeric ''abc'' \<and> start constructor = 0
   \<and> start (attached [''counter'' \<mapsto> ''5'', ''start'' \<mapsto> ''abc'']) = 5
   \<and> perform (KeyDownEvent None) (attached Map.empty) = Inl TypeError"
proof -
  have "blank '' ''" "\<not> numericLiteral '' ''" "blank []" "\<not> numericLiteral []"
    "nonNumeric ''abc''"
    by (simp_all add: nonNumeric_def blank_def isStrWhiteSpaceChar_def trimString_def
          numericLiteral_def radixLiteral_def stepPhase.simps isDigit_def digitValue_def)
  moreover have "min_bound (attributeChangedCallback ''min'' (Some ''3'') (Some '' '')
                  (attached [''min'' \<mapsto> ''3''])) = 0"
    "min_bound (attributeChangedCallback ''min'' (Some ''3'') (Some [])
                  (attached [''min'' \<mapsto> ''3''])) = 0"
    "min_bound (attached [''min'' \<mapsto> ''3'']) = 3"
    by (simp_all add: attached_min3 attributeChangedCallback_def numAttr_def Number_literals
          Let_def)
  moreover have "start constructor = 0"
    "start (attached [''counter'' \<mapsto> ''5'', ''start'' \<mapsto> ''abc'']) = 5"
    by (simp_all add: attach_defs)
  moreover have "perform (KeyDownEvent None) (attached Map.empty) = Inl TypeError"
    by (simp add: onKeyEvent_def)
  ultimately show ?thesis by blast
qed

subsection \<open>Colour of the number\<close>

text \<open>
  C6. After \<open>_update()\<close>, and so in every state an attached widget reaches, the colour
  classes of the number are those of the first match among \<open>value = 18\<close>, \<open>value = 21\<close>,
  \<open>value = min\<close>, \<open>value = max\<close>: at most one. When the value is 18 and \<open>min\<close> is 18
  the class is \<open>at-18\<close> and not \<open>at-min\<close>.
\<close>

theorem color_class_first_match:
  "(shadow (update st) = Some d \<longrightarrow>
      colorClasses (num_classList d) = firstMatch (counter st) (min_bound st) (max_bound st)
      \<and> length (colorClasses (num_classList d)) \<le> 1
      \<and> (counter st = 18 \<and> min_bound st = 18 \<longrightarrow>
           ''at-18'' \<in> set (num_classList d) \<and> ''at-min'' \<notin> set (num_classList d)))
   \<and> (\<exists>d'. shadow (run es (attached attrs)) = Some d'
         \<and> colorClasses (num_classList d')
             = firstMatch (counter (run es (attached attrs)))
                 (min_bound (run es (attached attrs))) (max_bound (run es (attached attrs))))"
proof -
  have "inSync (run es (attached attrs))"
    by (simp add: inSync_run inSync_attached)
  then obtain d' where "shadow (run es (attached attrs)) = Some d'"
    and "num_classList d' = classesFor (counter (run es (attached attrs)))
           (min_bound (run es (attached attrs))) (max_bound (run es (attached attrs)))"
    by (rule inSync_shadow)
  then have reach: "\<exists>d'. shadow (run es (attached attrs)) = Some d'
         \<and> colorClasses (num_classList d')
             = firstMatch (counter (run es (attached attrs)))
                 (min_bound (run es (attached attrs))) (max_bound (run es (attached attrs)))"
    by (simp add: colorClasses_classesFor)
  have "colorClasses (num_classList d) = firstMatch (counter st) (min_bound st) (max_bound st)
      \<and> length (colorClasses (num_classList d)) \<le> 1
      \<and> (counter st = 18 \<and> min_bound st = 18 \<longrightarrow>
           ''at-18'' \<in> set (num_classList d) \<and> ''at-min'' \<notin> set (num_classList d))"
    if "shadow (update st) = Some d"
    using update_shadow_sync(3) [OF that] classesFor_18_min
      length_firstMatch [of "counter st" "min_bound st" "max_bound st"]
    by (simp add: colorClasses_classesFor)
  with reach show ?thesis by blast
qed

text \<open>A widget attached with \<open>counter = 18\<close>, \<open>min = 18\<close> and \<open>max = 30\<close>.\<close>

theorem color_class_first_match_witness:
  "counter (attached [''counter'' \<mapsto> ''18'', ''min'' \<mapsto> ''18'', ''max'' \<mapsto> ''30'']) = 18
   \<and> min_bound (attached [''counter'' \<mapsto> ''18'', ''min'' \<mapsto> ''18'', ''max'' \<mapsto> ''30'']) = 18
   \<and> shadow (update (attached [''counter'' \<mapsto> ''18'', ''min'' \<mapsto> ''18'', ''max'' \<mapsto> ''30'']))
       = Some \<lparr>num_textContent = 18, min_textContent = 18, max_textContent = 30,
               inc_disabled = False, dec_disabled = True,
               num_classList = [''at-18'', ''bold'']\<rparr>
   \<and> colorClasses [''at-18'', ''bold''] = [''at-18'']
   \<and> ''at-min'' \<notin> set [''at-18'', ''bold'']"
proof -
  have u: "shadow (update (attached [''counter'' \<mapsto> ''18'', ''min'' \<mapsto> ''18'', ''max'' \<mapsto> ''30'']))
       = Some \<lparr>num_textContent = 18, min_textContent = 18, max_textContent = 30,
               inc_disabled = False, dec_disabled = True,
               num_classList = [''at-18'', ''bold'']\<rparr>"
    by (simp add: attached_min18 update_def)
  have f: "counter (attached [''counter'' \<mapsto> ''18'', ''min'' \<mapsto> ''18'', ''max'' \<mapsto> ''30'']) = 18"
    "min_bound (attached [''counter'' \<mapsto> ''18'', ''min'' \<mapsto> ''18'', ''max'' \<mapsto> ''30'']) = 18"
    by (simp_all add: attached_min18)
  from color_class_first_match
         [of "attached [''counter'' \<mapsto> ''18'', ''min'' \<mapsto> ''18'', ''max'' \<mapsto> ''30'']"
             "\<lparr>num_textContent = 18, min_textContent = 18, max_textContent = 30,
               inc_disabled = False, dec_disabled = True,
               num_classList = [''at-18'', ''bold'']\<rparr>"] u f
  show ?thesis by (simp add: firstMatch_def)
qed

subsection \<open>The buttons at the limits\<close>

text \<open>
  C7. After \<open>_update()\<close>, and so in every state an attached widget reaches, the increment
  button is disabled exactly when \<open>value \<ge> max\<close> and the decrement button exactly when
  \<open>value \<le> min\<close>. Scenario A: the defaults and ten steps up give the value 10, the
  increment button disabled, and the classes \<open>at-max\<close> and \<open>bold\<close>.
\<close>

theorem buttons_disabled_at_limits:
  "(shadow (update st) = Some d \<longrightarrow>
      (inc_disabled d \<longleftrightarrow> counter st \<ge> max_bound st)
      \<and> (dec_disabled d \<longleftrightarrow> counter st \<le> min_bound st))
   \<and> (\<exists>d'. shadow (run es (attached attrs)) = Some d'
         \<and> (inc_disabled d'
              \<longleftrightarrow> counter (run es (attached attrs)) \<ge> max_bound (run es (attached attrs)))
         \<and> (dec_disabled d'
              \<longleftrightarrow> counter (run es (attached attrs)) \<le> min_bound (run es (attached attrs))))
   \<and> counter (run (replicate 10 IncClick) (attached Map.empty)) = 10
   \<and> (\<exists>d'. shadow (run (replicate 10 IncClick) (attached Map.empty)) = Some d'
         \<and> inc_disabled d' \<and> num_classList d' = [''at-max'', ''bold''])"
proof -
  have "inSync (run es (attached attrs))"
    by (simp add: inSync_run inSync_attached)
  then have reach: "\<exists>d'. shadow (run es (attached attrs)) = Some d'
         \<and> (inc_disabled d'
              \<longleftrightarrow> counter (run es (attached attrs)) \<ge> max_bound (run es (attached attrs)))
         \<and> (dec_disabled d'
              \<longleftrightarrow> counter (run es (attached attrs)) \<le> min_bound (run es (attached attrs)))"
    by (rule inSync_shadow) simp
  have sync: "(inc_disabled d \<longleftrightarrow> counter st \<ge> max_bound st)
      \<and> (dec_disabled d \<longleftrightarrow> counter st \<le> min_bound st)"
    if "shadow (update st) = Some d"
    using update_shadow_sync(1,2) [OF that] by simp
  have a: "counter (run (replicate 10 IncClick) (attached Map.empty)) = 10
   \<and> (\<exists>d'. shadow (run (replicate 10 IncClick) (attached Map.empty)) = Some d'
         \<and> inc_disabled d' \<and> num_classList d' = [''at-max'', ''bold''])"
    by (simp add: scenario_A)
  from reach sync a show ?thesis by blast
qed

text \<open>The default widget: the value is at \<open>min\<close> and below \<open>max\<close>.\<close>

theorem buttons_disabled_at_limits_witness:
  "shadow (update (attached Map.empty))
     = Some \<lparr>num_textContent = 0, min_textContent = 0, max_textContent = 10,
             inc_disabled = False, dec_disabled = True,
             num_classList = [''at-min'', ''bold'']\<rparr>
   \<and> \<not> counter (attached Map.empty) \<ge> max_bound (attached Map.empty)
   \<and> counter (attached Map.empty) \<le> min_bound (attached Map.empty)"
proof -
  have u: "shadow (update (attached Map.empty))
     = Some \<lparr>num_textContent = 0, min_textContent = 0, max_textContent = 10,
             inc_disabled = False, dec_disabled = True,
             num_classList = [''at-min'', ''bold'']\<rparr>"
    by (simp add: attached_empty update_def)
  from buttons_disabled_at_limits
         [of "attached Map.empty"
             "\<lparr>num_textContent = 0, min_textContent = 0, max_textContent = 10,
               inc_disabled = False, dec_disabled = True,
               num_classList = [''at-min'', ''bold'']\<rparr>"] u
  show ?thesis by simp
qed

subsection \<open>Reset twice\<close>

text \<open>
  C8. A reset after a reset changes nothing: the two states are equal in value, start,
  bounds, page and confetti count.
\<close>

theorem doReset_idempotent:
  "doReset (doReset st) = doReset st
   \<and> run [ResetClick, ResetClick] st = run [ResetClick] st"
  by (simp add: doReset_def update_counter_same)

theorem doReset_idempotent_witness:
  "doReset (doReset (attached [''start'' \<mapsto> ''5''])) = doReset (attached [''start'' \<mapsto> ''5''])"
  using doReset_idempotent [of "attached [''start'' \<mapsto> ''5'']"] by simp

subsection \<open>The empty string\<close>

text \<open>
  C9. \<open>Number\<close> of the empty string is the finite number 0, so an attribute set to the
  empty string is accepted: \<open>_numAttr\<close> returns 0 and not the fallback, and a change of
  \<open>counter\<close>, \<open>start\<close>, \<open>min\<close> or \<open>max\<close> to the empty string sets that field to 0.
  \<open>_numAttr\<close> returns the fallback only for a string that \<open>Number\<close> makes \<open>NaN\<close> or
  infinite; for every other string it returns the number read.
\<close>

theorem empty_string_attribute_is_zero:
  "Number [] = Num 0
   \<and> numAttr (Some []) fallback = 0
   \<and> (oldV \<noteq> Some [] \<longrightarrow>
        counter (attributeChangedCallback ''counter'' oldV (Some []) st) = 0
        \<and> start (attributeChangedCallback ''start'' oldV (Some []) st) = 0
        \<and> min_bound (attributeChangedCallback ''min'' oldV (Some []) st) = 0
        \<and> max_bound (attributeChangedCallback ''max'' oldV (Some []) st) = 0)
   \<and> numAttr (Some s) fallback
       = (case Number s of Num n \<Rightarrow> n | NaN \<Rightarrow> fallback
          | PosInf \<Rightarrow> fallback | NegInf \<Rightarrow> fallback)"
  by (simp add: Number_literals attributeChangedCallback_def numAttr_def Let_def
           split: jsnum.splits)

text \<open>The maximum of the default widget, 10, becomes 0.\<close>

theorem empty_string_attribute_is_zero_witness:
  "max_bound (attached Map.empty) = 10
   \<and> max_bound (attributeChangedCallback ''max'' None (Some []) (attached Map.empty)) = 0"
proof -
  have h: "(None :: string option) \<noteq> Some []" by simp
  from empty_string_attribute_is_zero [of _ None "attached Map.empty"] h
  show ?thesis by (simp add: attached_empty)
qed

subsection \<open>The start value at attach time\<close>

text \<open>
  C10, as amended. When the attributes at attach time hold a number for \<open>counter\<close> and
  nothing for \<open>start\<close>, both the value and \<open>start\<close> are that number. A reset after any
  clicks and keys then sets the value to that number brought into \<open>[min, max]\<close>: to the
  number itself when it lies within the bounds, which the attach does not see to.
\<close>

theorem start_defaults_to_initial_counter:
  "attrs ''counter'' = Some s \<and> Number s = Num x \<and> attrs ''start'' = None \<longrightarrow>
     counter (attached attrs) = x
     \<and> start (attached attrs) = x
     \<and> (list_all userInput es \<longrightarrow>
          counter (doReset (run es (attached attrs)))
            = min (max_bound (attached attrs)) (max (min_bound (attached attrs)) x))
     \<and> (list_all userInput es
          \<and> min_bound (attached attrs) \<le> x \<and> x \<le> max_bound (attached attrs) \<longrightarrow>
          counter (doReset (run es (attached attrs))) = x)"
proof
  assume a: "attrs ''counter'' = Some s \<and> Number s = Num x \<and> attrs ''start'' = None"
  then have c: "counter (attached attrs) = x" and s: "start (attached attrs) = x"
    by (simp_all add: attached_def connectedCallback_def render_def numAttr_def Let_def)
  have r: "list_all userInput es \<longrightarrow>
           counter (doReset (run es (attached attrs)))
             = min (max_bound (attached attrs)) (max (min_bound (attached attrs)) x)"
    using run_userInput_fields [of es "attached attrs"] s by simp
  then have "list_all userInput es
          \<and> min_bound (attached attrs) \<le> x \<and> x \<le> max_bound (attached attrs) \<longrightarrow>
          counter (doReset (run es (attached attrs))) = x"
    by auto
  with c s r show "counter (attached attrs) = x
     \<and> start (attached attrs) = x
     \<and> (list_all userInput es \<longrightarrow>
          counter (doReset (run es (attached attrs)))
            = min (max_bound (attached attrs)) (max (min_bound (attached attrs)) x))
     \<and> (list_all userInput es
          \<and> min_bound (attached attrs) \<le> x \<and> x \<le> max_bound (attached attrs) \<longrightarrow>
          counter (doReset (run es (attached attrs))) = x)"
    by blast
qed

text \<open>A widget attached with \<open>counter = 5\<close>, stepped up twice and reset.\<close>

theorem start_defaults_to_initial_counter_witness:
  "[''counter'' \<mapsto> ''5''] ''counter'' = Some ''5''
   \<and> Number ''5'' = Num 5
   \<and> [''counter'' \<mapsto> ''5''] ''start'' = None
   \<and> list_all userInput [IncClick, IncClick]
   \<and> start (attached [''counter'' \<mapsto> ''5'']) = 5
   \<and> counter (doReset (run [IncClick, IncClick] (attached [''counter'' \<mapsto> ''5'']))) = 5"
proof -
  have h: "[''counter'' \<mapsto> ''5''] ''counter'' = Some ''5''"
    "Number ''5'' = Num 5" "[''counter'' \<mapsto> ''5''] ''start'' = None"
    "list_all userInput [IncClick, IncClick]"
    by (simp_all add: Number_literals)
  have b: "min_bound (attached [''counter'' \<mapsto> ''5'']) \<le> 5"
    "5 \<le> max_bound (attached [''counter'' \<mapsto> ''5''])"
    by (simp_all add: attached_counter5)
  from start_defaults_to_initial_counter
         [of "[''counter'' \<mapsto> ''5'']" "''5''" 5 "[IncClick, IncClick]"] h b
  show ?thesis by simp
qed

text \<open>
  A widget attached with \<open>counter = 50\<close> and no \<open>start\<close>, under the default bounds 0
  and 10: \<open>start\<close> is 50, and a reset sets the value to 10.
\<close>

theorem reset_after_out_of_range_counter:
  "[''counter'' \<mapsto> ''50''] ''start'' = None
   \<and> counter (attached [''counter'' \<mapsto> ''50'']) = 50
   \<and> start (attached [''counter'' \<mapsto> ''50'']) = 50
   \<and> counter (fire ResetClick (attached [''counter'' \<mapsto> ''50''])) = 10"
  unfolding attached_counter50 by simp

end
